theory Spec2Isabelle
  imports Main "HOL-Library.Sublist"
begin

section \<open>JavaScript values\<close>

text \<open>
  The values that travel through the adapters: flat records, bind values, the rows and the
  error objects handed back by the drivers. Numbers are integers (row counts); an object is
  its list of own properties in insertion order.
\<close>

datatype jsval =
    JUndefined
  | JNull
  | JBool bool
  | JNum int
  | JStr string
  | JArr "jsval list"
  | JObj "(string \<times> jsval) list"

type_synonym row = "(string \<times> jsval) list"

text \<open>\<^verbatim>\<open>if (v)\<close>, \<^verbatim>\<open>!v\<close>, \<^verbatim>\<open>v || d\<close>: JavaScript truthiness.\<close>

fun truthy :: "jsval \<Rightarrow> bool" where
  "truthy JUndefined = False"
| "truthy JNull = False"
| "truthy (JBool b) = b"
| "truthy (JNum n) = (n \<noteq> 0)"
| "truthy (JStr s) = (s \<noteq> [])"
| "truthy (JArr xs) = True"
| "truthy (JObj kvs) = True"

text \<open>\<^verbatim>\<open>Array.isArray(v)\<close>.\<close>

fun isArray :: "jsval \<Rightarrow> bool" where
  "isArray (JArr xs) = True"
| "isArray v = False"

text \<open>\<^verbatim>\<open>row[key]\<close> on a plain object: the own property, or undefined.\<close>

definition obj_get :: "row \<Rightarrow> string \<Rightarrow> jsval" where
  "obj_get r k = (case map_of r k of None \<Rightarrow> JUndefined | Some v \<Rightarrow> v)"

text \<open>\<^verbatim>\<open>row[key] = v\<close>: an existing property keeps its position, a new one is appended.\<close>

fun obj_set :: "row \<Rightarrow> string \<Rightarrow> jsval \<Rightarrow> row" where
  "obj_set [] k v = [(k, v)]"
| "obj_set ((k', v') # r) k v = (if k' = k then (k, v) # r else (k', v') # obj_set r k v)"

text \<open>\<^verbatim>\<open>v?.key\<close> and \<^verbatim>\<open>v?.[0]\<close>: optional property reads, undefined on anything without
  the property.\<close>

fun js_get :: "jsval \<Rightarrow> string \<Rightarrow> jsval" where
  "js_get (JObj kvs) k = obj_get kvs k"
| "js_get v k = JUndefined"

fun js_first :: "jsval \<Rightarrow> jsval" where
  "js_first (JArr []) = JUndefined"
| "js_first (JArr (x # xs)) = x"
| "js_first (JObj kvs) = obj_get kvs ''0''"
| "js_first (JStr []) = JUndefined"
| "js_first (JStr (c # s)) = JStr [c]"
| "js_first v = JUndefined"

subsection \<open>Strings\<close>

text \<open>Characters are bytes; case mapping and trimming act on the ASCII range.\<close>

definition upper_letters :: string where
  "upper_letters = ''ABCDEFGHIJKLMNOPQRSTUVWXYZ''"

definition lower_letters :: string where
  "lower_letters = ''abcdefghijklmnopqrstuvwxyz''"

definition lower_char :: "char \<Rightarrow> char" where
  "lower_char c = (case map_of (zip upper_letters lower_letters) c of None \<Rightarrow> c | Some d \<Rightarrow> d)"

definition upper_char :: "char \<Rightarrow> char" where
  "upper_char c = (case map_of (zip lower_letters upper_letters) c of None \<Rightarrow> c | Some d \<Rightarrow> d)"

definition toLowerCase :: "string \<Rightarrow> string" where
  "toLowerCase s = map lower_char s"

definition toUpperCase :: "string \<Rightarrow> string" where
  "toUpperCase s = map upper_char s"

definition is_space :: "char \<Rightarrow> bool" where
  "is_space c = (c \<in> set [CHR '' '', CHR 0x09, CHR 0x0A, CHR 0x0B, CHR 0x0C, CHR 0x0D])"

definition trim :: "string \<Rightarrow> string" where
  "trim s = rev (dropWhile is_space (rev (dropWhile is_space s)))"

text \<open>\<^verbatim>\<open>xs.join(sep)\<close> on strings.\<close>

fun join :: "string \<Rightarrow> string list \<Rightarrow> string" where
  "join sep [] = []"
| "join sep [x] = x"
| "join sep (x # y # ys) = x @ sep @ join sep (y # ys)"

text \<open>\<^verbatim>\<open>s.includes(t)\<close>.\<close>

definition str_includes :: "string \<Rightarrow> string \<Rightarrow> bool" where
  "str_includes s t = sublist t s"

text \<open>Decimal text of a number.\<close>

fun digits :: "nat \<Rightarrow> string" where
  "digits n = (if n < 10 then [''0123456789'' ! n] else digits (n div 10) @ [''0123456789'' ! (n mod 10)])"

definition show_int :: "int \<Rightarrow> string" where
  "show_int i = (if i < 0 then CHR ''-'' # digits (nat (- i)) else digits (nat i))"

text \<open>
  String conversion (\<^verbatim>\<open>v.toString()\<close>, \<^verbatim>\<open>`${v}`\<close>). \<open>None\<close> is the TypeError of an
  object whose own \<^verbatim>\<open>toString\<close> property is not callable (no value here is a function).
  An array joins its elements with commas, null and undefined elements as empty text.
\<close>

fun js_String :: "jsval \<Rightarrow> string option" where
  "js_String JUndefined = Some ''undefined''"
| "js_String JNull = Some ''null''"
| "js_String (JBool b) = Some (if b then ''true'' else ''false'')"
| "js_String (JNum n) = Some (show_int n)"
| "js_String (JStr s) = Some s"
| "js_String (JArr xs) =
     map_option (join '','')
       (those (map (\<lambda>x. if x = JNull \<or> x = JUndefined then Some [] else js_String x) xs))"
| "js_String (JObj kvs) = (if map_of kvs ''toString'' = None then Some ''[object Object]'' else None)"

text \<open>An \<^verbatim>\<open>Error\<close> raised by the code itself carries its message.\<close>

definition mkError :: "string \<Rightarrow> jsval" where
  "mkError msg = JObj [(''message'', JStr msg)]"

definition typeError :: jsval where
  "typeError = JObj [(''name'', JStr ''TypeError'')]"

section \<open>Schemas and statements\<close>

record field =
  name :: string
  type :: string

type_synonym schema = "field list"


text \<open>
  What the module takes from outside: the language's JSON functions, \<^verbatim>\<open>isJSONStr\<close> of
  the utility library, the schema tables of \<^verbatim>\<open>snowflake-schemas.js\<close>, the temporary
  directory, the date stamp, the random suffix \<^verbatim>\<open>uid(18)\<close> (a function of the number of
  outside calls made so far), the transform \<^verbatim>\<open>schematizeForWarehouse\<close> of
  \<^verbatim>\<open>components/transforms.js\<close> (from the records and the batch to the records and the prepared
  batch) and the retry bound. \<^verbatim>\<open>JSON.parse\<close> answers \<open>None\<close> where it throws.
\<close>

record deps =
  JSON_parse :: "string \<Rightarrow> jsval option"
  JSON_stringify :: "jsval \<Rightarrow> string"
  isJSONStr :: "string \<Rightarrow> bool"
  eventsSchema :: schema
  usersSchema :: schema
  groupsSchema :: schema
  TEMP_DIR :: string
  TODAY :: string
  uid :: "nat \<Rightarrow> string"
  schematizeForWarehouse :: "(nat \<Rightarrow> row) \<Rightarrow> nat list \<Rightarrow> schema \<Rightarrow> (nat \<Rightarrow> row) \<times> nat list"
  MAX_RETRIES :: nat

definition getSnowflakeSchema :: "deps \<Rightarrow> string \<Rightarrow> jsval + schema" where
  "getSnowflakeSchema D t =
     (if t = ''event'' \<or> t = ''track'' then Inr (eventsSchema D)
      else if t = ''user'' \<or> t = ''engage'' then Inr (usersSchema D)
      else if t = ''group'' \<or> t = ''groups'' then Inr (groupsSchema D)
      else Inl (mkError ''Invalid Record Type''))"

definition nl :: string where
  "nl = [CHR 0x0A]"

definition tabs :: "nat \<Rightarrow> string" where
  "tabs n = replicate n (CHR 0x09)"

definition spaces :: "nat \<Rightarrow> string" where
  "spaces n = replicate n (CHR '' '')"

definition prepareInsertSQL :: "schema \<Rightarrow> string \<Rightarrow> string \<times> bool" where
  "prepareInsertSQL sch tableName =
     (let hasVariant = list_ex (\<lambda>field. type field = ''VARIANT'') sch in
      if hasVariant then
        (let selectParts = join '', '' (map (\<lambda>field.
               if type field = ''VARIANT''
               then ''value:'' @ toLowerCase (name field) @ '' AS '' @ name field
               else ''value:'' @ toLowerCase (name field) @ '' AS '' @ name field) sch)
         in (nl @ spaces 12 @ ''INSERT INTO '' @ tableName @
             nl @ spaces 12 @ ''SELECT '' @ selectParts @
             nl @ spaces 12 @ ''FROM TABLE(FLATTEN(PARSE_JSON(?)))'' @
             nl @ spaces 8, True))
      else
        (let columnNames = join '', '' (map name sch);
             placeholders = join '', '' (map (\<lambda>f. ''?'') sch)
         in (''INSERT INTO '' @ tableName @ '' ('' @ columnNames @ '') VALUES ('' @ placeholders @ '')'',
             False)))"

text \<open>The column mapping of the bulk-load statements (copy, pipe, task, flush).\<close>

definition columnMappings :: "schema \<Rightarrow> string" where
  "columnMappings sch =
     join '', '' (map (\<lambda>col. ''$1:'' @ toLowerCase (name col) @ '' AS '' @ name col) sch)"

definition copyCommand :: "string \<Rightarrow> schema \<Rightarrow> string \<Rightarrow> string \<Rightarrow> string" where
  "copyCommand table sch stageName fileName =
     nl @ tabs 1 @ ''  COPY INTO '' @ table @
     nl @ tabs 1 @ ''  FROM ('' @
     nl @ tabs 2 @ ''SELECT '' @ columnMappings sch @
     nl @ tabs 2 @ ''FROM '' @ stageName @ ''/'' @ fileName @
     nl @ tabs 1 @ ''  )'' @
     nl @ tabs 1 @ ''  FILE_FORMAT = (TYPE = '' @ [CHR 0x27] @ ''JSON'' @ [CHR 0x27] @ '');'' @
     nl @ tabs 1"

section \<open>Payload shaping\<close>

definition nullLike :: "jsval \<Rightarrow> bool" where
  "nullLike v = (v = JNull \<or> v = JUndefined \<or> v = JStr ''null'' \<or> v = JStr [])"

text \<open>Throws the TypeError of \<^verbatim>\<open>value.toString()\<close> where conversion does.\<close>

definition formatBindValue :: "deps \<Rightarrow> jsval \<Rightarrow> string \<Rightarrow> jsval + jsval" where
  "formatBindValue D v ty =
     (if nullLike v then Inr JNull
      else case js_String v of
        None \<Rightarrow> Inl typeError
      | Some txt \<Rightarrow>
          if trim txt = [] then Inr JNull
          else if ty = ''VARIANT'' then Inr v
          else (case v of
                  JStr s \<Rightarrow>
                    if isJSONStr D s
                    then (case JSON_parse D s of Some parsed \<Rightarrow> Inr parsed | None \<Rightarrow> Inr v)
                    else Inr v
                | _ \<Rightarrow> Inr v))"

text \<open>
  \<^verbatim>\<open>prepareComplexRows\<close> writes into the record it is given and returns that record;
  \<open>prepareComplexRows\<close> is the record's content afterwards.
\<close>

definition reparse :: "deps \<Rightarrow> row \<Rightarrow> field \<Rightarrow> row" where
  "reparse D r col =
     (let v = obj_get r (name col) in
      if truthy v then
        (case v of
           JStr s \<Rightarrow> (case JSON_parse D s of Some parsed \<Rightarrow> obj_set r (name col) parsed | None \<Rightarrow> r)
         | _ \<Rightarrow> r)
      else r)"

definition prepareComplexRows :: "deps \<Rightarrow> row \<Rightarrow> schema \<Rightarrow> row" where
  "prepareComplexRows D r sch =
     (let variantCols = filter (\<lambda>f. type f = ''VARIANT'') sch;
          r1 = foldl (reparse D) r variantCols
      in map (\<lambda>(key, v). (key, if nullLike v then JNull else v)) r1)"


section \<open>The warehouse adapter: state and outside calls\<close>

text \<open>The configuration keys read from \<^verbatim>\<open>process.env\<close>; a key is a string or undefined.\<close>

record config =
  snowflake_account :: "string option"
  snowflake_user :: "string option"
  snowflake_password :: "string option"
  snowflake_database :: "string option"
  snowflake_schema :: "string option"
  snowflake_warehouse :: "string option"
  snowflake_role :: "string option"
  snowflake_access_url :: "string option"
  snowflake_stage :: "string option"
  snowflake_pipe :: "string option"
  snowflake_private_key :: "string option"
  snowflake_region :: "string option"
  snowflake_provider :: "string option"
  snowflake_task :: "string option"
  snowflake_task_schedule :: "string option"

definition isSet :: "string option \<Rightarrow> bool" where
  "isSet v = (case v of None \<Rightarrow> False | Some s \<Rightarrow> s \<noteq> [])"

text \<open>\<^verbatim>\<open>`${v}`\<close> of a configuration key.\<close>

definition tpl :: "string option \<Rightarrow> string" where
  "tpl v = (case v of None \<Rightarrow> ''undefined'' | Some s \<Rightarrow> s)"

record TableNames =
  eventTable :: string
  userTable :: string
  groupTable :: string

text \<open>
  Every call that leaves the module: the SQL driver (connect, liveness, statement
  execution with its binds), the streaming-ingest client, and the local file system.
  The outside world answers a call given the calls made before it; \<open>Err\<close> is the driver's
  error object (a rejected promise, or the \<^verbatim>\<open>err\<close> of a callback).
\<close>

datatype call =
    Connect
  | IsValidAsync
  | Execute string "jsval option"
  | CreateSnowpipeAPI "string option list"
  | InsertFile string "string list"
  | WriteFile string string
  | Unlink string

datatype reply = Ok jsval | Err jsval

type_synonym backend = "call list \<Rightarrow> call \<Rightarrow> reply"

text \<open>
  The module-level variables (the configuration as last read, the connection handle, the
  readiness flags with undefined as \<open>False\<close>, the transport), the calls made so far, and
  the records of the batches by reference.
\<close>

record world =
  cfg :: config
  connection :: bool
  isConnectionReady :: bool
  isDatasetReady :: bool
  areTablesReady :: bool
  isStageReady :: bool
  isPipeReady :: bool
  isSnowPipeReady :: bool
  currentUser :: jsval
  snowpipeAPI :: bool
  transport :: string
  trace :: "call list"
  heap :: "nat \<Rightarrow> row"

type_synonym 'a io = "world \<Rightarrow> (jsval + 'a) \<times> world"

definition returnE :: "'a \<Rightarrow> 'a io" where
  "returnE x w = (Inr x, w)"

definition throwE :: "jsval \<Rightarrow> 'a io" where
  "throwE e w = (Inl e, w)"

definition bindE :: "'a io \<Rightarrow> ('a \<Rightarrow> 'b io) \<Rightarrow> 'b io" where
  "bindE m f w = (case m w of (Inl e, w') \<Rightarrow> (Inl e, w') | (Inr x, w') \<Rightarrow> f x w')"

definition perform :: "backend \<Rightarrow> call \<Rightarrow> world \<Rightarrow> reply \<times> world" where
  "perform B c w = (B (trace w) c, w\<lparr>trace := trace w @ [c]\<rparr>)"

text \<open>
  The contention test of \<^verbatim>\<open>executeSQL\<close>. The driver's error is an \<^verbatim>\<open>Error\<close>: its message
  is a string.
\<close>

definition tableLocked :: "jsval \<Rightarrow> bool" where
  "tableLocked err =
     ((let code = js_get err ''code'' in
         code \<noteq> JUndefined \<and> code \<noteq> JNull \<and> js_String code = Some ''000625'') \<and>
      js_get err ''name'' = JStr ''OperationFailedError'' \<and>
      (case js_get err ''message'' of JStr m \<Rightarrow> str_includes m ''has locked table'' | _ \<Rightarrow> False))"

text \<open>Without a connection handle \<^verbatim>\<open>connection.execute\<close> is a TypeError and no call is made.\<close>

definition executeSQL :: "backend \<Rightarrow> string \<Rightarrow> jsval option \<Rightarrow> bool \<Rightarrow> jsval io" where
  "executeSQL B sql binds neverThrow w =
     (if \<not> connection w then (Inl typeError, w)
      else case perform B (Execute sql binds) w of
        (Err err, w') \<Rightarrow>
          if neverThrow then (Inr err, w')
          else if tableLocked err then (Inl (mkError ''TableLockedError''), w')
          else (Inl err, w')
      | (Ok rows, w') \<Rightarrow> (Inr rows, w'))"

section \<open>Resource lifecycle\<close>

definition createSnowflakeConnection :: "backend \<Rightarrow> bool io" where
  "createSnowflakeConnection B w =
     (let c = cfg w in
      if \<not> isSet (snowflake_account c) then (Inl (mkError ''snowflake_account is required''), w)
      else if \<not> isSet (snowflake_user c) then (Inl (mkError ''snowflake_user is required''), w)
      else if \<not> isSet (snowflake_password c) then (Inl (mkError ''snowflake_password is required''), w)
      else if \<not> isSet (snowflake_database c) then (Inl (mkError ''snowflake_database is required''), w)
      else if \<not> isSet (snowflake_schema c) then (Inl (mkError ''snowflake_schema is required''), w)
      else if \<not> isSet (snowflake_warehouse c) then (Inl (mkError ''snowflake_warehouse is required''), w)
      else if \<not> isSet (snowflake_role c) then (Inl (mkError ''snowflake_role is required''), w)
      else case perform B Connect w of
        (Err err, w') \<Rightarrow> (Inr False, w')
      | (Ok conn, w') \<Rightarrow> (Inr True, w'\<lparr>connection := True\<rparr>))"

text \<open>\<^verbatim>\<open>Object.values(v)[0]\<close>; \<open>None\<close> is the TypeError on null and undefined.\<close>

fun firstValue :: "jsval \<Rightarrow> jsval option" where
  "firstValue JUndefined = None"
| "firstValue JNull = None"
| "firstValue (JObj ((k, v) # kvs)) = Some v"
| "firstValue (JArr (x # xs)) = Some x"
| "firstValue (JStr (c # s)) = Some (JStr [c])"
| "firstValue v = Some JUndefined"

text \<open>\<^verbatim>\<open>xs.slice().pop()\<close>.\<close>

definition lastElem :: "jsval list \<Rightarrow> jsval" where
  "lastElem xs = (if xs = [] then JUndefined else last xs)"

definition quote :: string where
  "quote = [CHR 0x27]"

text \<open>Every failure inside \<^verbatim>\<open>getCurrentUser\<close> is caught and answered by null.\<close>

definition getCurrentUser :: "backend \<Rightarrow> jsval io" where
  "getCurrentUser B w =
     (case executeSQL B ''SELECT CURRENT_USER()'' None False w of
        (Inl e, w1) \<Rightarrow> (Inr JNull, w1)
      | (Inr getUser, w1) \<Rightarrow>
          if \<not> isArray getUser then (Inr JNull, w1)
          else (case firstValue (js_first getUser) of
              None \<Rightarrow> (Inr JNull, w1)
            | Some user \<Rightarrow>
                (case js_String user of
                   None \<Rightarrow> (Inr JNull, w1)
                 | Some userText \<Rightarrow>
                     (case executeSQL B (''SHOW USERS LIKE '' @ quote @ userText @ quote) None False w1 of
                        (Inl e, w2) \<Rightarrow> (Inr JNull, w2)
                      | (Inr (JArr getDetails), w2) \<Rightarrow> (Inr (lastElem getDetails), w2)
                      | (Inr other, w2) \<Rightarrow> (Inr JNull, w2)))))"

text \<open>\<^verbatim>\<open>v > 0\<close> on a reported count (a number, or a boolean read as 0 or 1).\<close>

fun positive :: "jsval \<Rightarrow> bool" where
  "positive (JNum n) = (0 < n)"
| "positive (JBool b) = b"
| "positive v = False"

text \<open>\<^verbatim>\<open>rows.some(schema => schema.name === schemaName.toUpperCase())\<close>.\<close>

fun someSchema :: "jsval list \<Rightarrow> string option \<Rightarrow> jsval + bool" where
  "someSchema [] schemaName = Inr False"
| "someSchema (x # xs) schemaName =
     (if x = JNull \<or> x = JUndefined then Inl typeError
      else case schemaName of
        None \<Rightarrow> Inl typeError
      | Some n \<Rightarrow> if js_get x ''name'' = JStr (toUpperCase n) then Inr True else someSchema xs schemaName)"

definition checkDatabaseQuery :: "string \<Rightarrow> string" where
  "checkDatabaseQuery databaseName =
     ''SELECT COUNT(*) AS count FROM '' @ toUpperCase databaseName @
     ''.INFORMATION_SCHEMA.DATABASES WHERE DATABASE_NAME = '' @ quote @ toUpperCase databaseName @ quote"

definition createDatabaseQuery :: "string \<Rightarrow> string" where
  "createDatabaseQuery databaseName = ''CREATE OR REPLACE DATABASE '' @ databaseName"

definition createSchemaQuery :: "string \<Rightarrow> string \<Rightarrow> string" where
  "createSchemaQuery databaseName schemaName = ''CREATE SCHEMA '' @ databaseName @ ''.'' @ schemaName"

text \<open>
  \<^verbatim>\<open>verifyOrCreateDatabase(databaseName = snowflake_database, schemaName = snowflake_schema)\<close>;
  it is only ever called without arguments, so the database name in the expected error
  message is the parameter. An undefined database name is the TypeError of
  \<^verbatim>\<open>databaseName.toUpperCase()\<close>.
\<close>

definition verifyOrCreateDatabase :: "backend \<Rightarrow> string option \<Rightarrow> string option \<Rightarrow> bool io" where
  "verifyOrCreateDatabase B database schemaName =
     (case database of
        None \<Rightarrow> throwE typeError
      | Some databaseName \<Rightarrow>
          bindE (executeSQL B (checkDatabaseQuery databaseName) None True) (\<lambda>checkResult.
            let databaseExists =
              (if (case js_get checkResult ''message'' of
                     JStr m \<Rightarrow> str_includes m (''Database '' @ quote @ toUpperCase databaseName @ quote @
                                                  '' does not exist or not authorized.'')
                   | _ \<Rightarrow> False) then False
               else if positive (js_get (js_first checkResult) ''COUNT'') then True
               else False)
            in
            bindE (if \<not> databaseExists
                   then bindE (executeSQL B (createDatabaseQuery databaseName) None False) (\<lambda>r. returnE ())
                   else returnE ()) (\<lambda>u.
            bindE (executeSQL B (''SHOW SCHEMAS IN DATABASE '' @ databaseName) None True) (\<lambda>checkSchemaResult.
              case checkSchemaResult of
                JArr schemas \<Rightarrow>
                  (case someSchema schemas schemaName of
                     Inl e \<Rightarrow> throwE e
                   | Inr schemaExists \<Rightarrow>
                       bindE (if \<not> schemaExists
                              then bindE (executeSQL B (createSchemaQuery databaseName (tpl schemaName)) None False)
                                     (\<lambda>r. returnE ())
                              else returnE ()) (\<lambda>u.
                       bindE (executeSQL B (''USE SCHEMA '' @ databaseName @ ''.'' @ tpl schemaName) None False)
                         (\<lambda>r. returnE True)))
              | _ \<Rightarrow> throwE (mkError ''Failed to check schema existence'')))))"

definition checkIfTableExists :: "backend \<Rightarrow> string \<Rightarrow> bool io" where
  "checkIfTableExists B tableName =
     bindE (executeSQL B (''SHOW TABLES LIKE '' @ quote @ tableName @ quote) None False) (\<lambda>result.
       if \<not> truthy result then returnE False
       else case result of
         JArr rows \<Rightarrow> returnE (rows \<noteq> [])
       | _ \<Rightarrow> returnE False)"

definition createTableQuery :: "string \<Rightarrow> string \<Rightarrow> string" where
  "createTableQuery tableName sqlSchema = ''CREATE OR REPLACE TABLE '' @ tableName @ '' ('' @ sqlSchema @ '')''"

definition createTable :: "backend \<Rightarrow> string \<Rightarrow> string \<Rightarrow> jsval io" where
  "createTable B tableName sqlSchema = executeSQL B (createTableQuery tableName sqlSchema) None False"

text \<open>
  The dummy insert is expected to fail with the unknown-column compilation error; destructuring
  a null or undefined result (or \<^verbatim>\<open>data\<close>) is a TypeError.
\<close>

definition insertDummyRecord :: "backend \<Rightarrow> string \<Rightarrow> (string \<times> string) list \<Rightarrow> bool io" where
  "insertDummyRecord B tableName dummyRecord =
     (let columns = join '', '' (map fst dummyRecord);
          vals = join '', '' (map (\<lambda>(k, v). quote @ v @ quote) dummyRecord);
          insertQuery = ''INSERT INTO '' @ tableName @ '' ('' @ columns @ '') VALUES ('' @ vals @ '')''
      in bindE (executeSQL B insertQuery None True) (\<lambda>result.
           if result = JNull \<or> result = JUndefined then throwE typeError
           else let code = js_get result ''code''; data = js_get result ''data'' in
             if data = JNull \<or> data = JUndefined then throwE typeError
             else if code \<noteq> JStr ''000904'' then returnE False
             else if js_get data ''errorCode'' \<noteq> JStr ''000904'' then returnE False
             else if js_get data ''sqlState'' \<noteq> JStr ''42000'' then returnE False
             else if js_get data ''type'' \<noteq> JStr ''COMPILATION'' then returnE False
             else returnE True))"

text \<open>
  The two polling loops of \<^verbatim>\<open>waitForTableToBeReady\<close>, counted down by the iterations left;
  the randomized sleeps between attempts are not part of the state. \<open>existsLoop\<close> answers
  whether the probe goes on (\<open>False\<close> is the early \<^verbatim>\<open>return false\<close>).
\<close>

fun existsLoop :: "backend \<Rightarrow> string \<Rightarrow> nat \<Rightarrow> bool io" where
  "existsLoop B tableName 0 = returnE True"
| "existsLoop B tableName (Suc k) =
     bindE (checkIfTableExists B tableName) (\<lambda>ex.
       if ex then returnE True
       else if k = 0 then returnE False
       else existsLoop B tableName k)"

fun probeLoop :: "backend \<Rightarrow> string \<Rightarrow> nat \<Rightarrow> bool io" where
  "probeLoop B tableName 0 = returnE False"
| "probeLoop B tableName (Suc k) =
     (\<lambda>w. case insertDummyRecord B tableName [(''dummy_column'', ''dummy_value'')] w of
        (Inr True, w') \<Rightarrow> (Inr True, w')
      | (Inr False, w') \<Rightarrow> probeLoop B tableName k w'
      | (Inl e, w') \<Rightarrow> probeLoop B tableName k w')"

definition waitForTableToBeReady :: "backend \<Rightarrow> string \<Rightarrow> nat \<Rightarrow> nat \<Rightarrow> bool io" where
  "waitForTableToBeReady B tableName retries maxInsertAttempts =
     bindE (existsLoop B tableName retries) (\<lambda>goOn.
       if \<not> goOn then returnE False
       else probeLoop B tableName maxInsertAttempts)"

fun verifyOrCreateTables :: "backend \<Rightarrow> deps \<Rightarrow> (string \<times> string) list \<Rightarrow> bool list io" where
  "verifyOrCreateTables B D [] = returnE []"
| "verifyOrCreateTables B D ((ty, table) # rest) =
     bindE (checkIfTableExists B table) (\<lambda>tableExists.
     bindE (if \<not> tableExists
            then (case getSnowflakeSchema D ty of
                Inl e \<Rightarrow> throwE e
              | Inr tableSchema \<Rightarrow>
                  let sqlSchema = join '', '' (map (\<lambda>f. name f @ '' '' @ type f) tableSchema) in
                  bindE (createTable B table sqlSchema) (\<lambda>tableCreateResult.
                    waitForTableToBeReady B table 20 20))
            else waitForTableToBeReady B table 20 20) (\<lambda>tableReady.
     bindE (verifyOrCreateTables B D rest) (\<lambda>results.
       returnE (tableReady # results))))"

definition createStageQuery :: "string \<Rightarrow> string" where
  "createStageQuery stage =
     ''CREATE OR REPLACE STAGE '' @ stage @ '' FILE_FORMAT = (TYPE = '' @ quote @ ''JSON'' @ quote @
     '') DIRECTORY = (ENABLE = TRUE)''"

definition verifyOrCreateStage :: "backend \<Rightarrow> bool io" where
  "verifyOrCreateStage B w =
     (let stage = tpl (snowflake_stage (cfg w)); role = tpl (snowflake_role (cfg w)) in
      bindE (executeSQL B (''SHOW STAGES LIKE '' @ quote @ stage @ quote) None False) (\<lambda>result.
        case result of
          JArr [] \<Rightarrow>
            bindE (executeSQL B (createStageQuery stage) None False) (\<lambda>stageCreatedResult.
            bindE (executeSQL B (''GRANT READ ON STAGE '' @ stage @ '' TO ROLE '' @ role) None False) (\<lambda>readPermsResult.
            bindE (executeSQL B (''GRANT WRITE ON STAGE '' @ stage @ '' TO ROLE '' @ role) None False) (\<lambda>writePermsResult.
              returnE True)))
        | JArr rows \<Rightarrow> returnE True
        | _ \<Rightarrow> throwE (mkError ''Failed to check stage existence'')) w)"

text \<open>\<^verbatim>\<open>s.split(sep).shift()\<close>: the text before the first occurrence of a non-empty separator.\<close>

fun takeBefore :: "string \<Rightarrow> string \<Rightarrow> string" where
  "takeBefore sep [] = []"
| "takeBefore sep (c # s) = (if prefix sep (c # s) then [] else c # takeBefore sep s)"

definition createPipeQuery :: "string \<Rightarrow> string \<Rightarrow> string \<Rightarrow> schema \<Rightarrow> string" where
  "createPipeQuery pipe stage table sch =
     (let mappings = columnMappings sch in
      nl @ tabs 4 @ ''CREATE OR REPLACE PIPE '' @ pipe @ ''_'' @ table @ '' AUTO_INGEST = FALSE AS'' @
      nl @ tabs 4 @ ''COPY INTO '' @ table @
      nl @ tabs 4 @ ''FROM ('' @
      nl @ tabs 5 @ ''SELECT '' @ mappings @
      nl @ tabs 5 @ ''FROM @'' @ stage @
      nl @ tabs 4 @ '')'' @
      nl @ tabs 4 @ ''FILE_FORMAT = (TYPE = '' @ quote @ ''JSON'' @ quote @ '')'' @
      nl @ tabs 4 @ ''ON_ERROR = '' @ quote @ ''CONTINUE'' @ quote @ '';'' @
      nl @ tabs 3)"

text \<open>\<^verbatim>\<open>Object.entries(tableNames)\<close>.\<close>

definition entries :: "TableNames \<Rightarrow> (string \<times> string) list" where
  "entries tn = [(''eventTable'', eventTable tn), (''userTable'', userTable tn), (''groupTable'', groupTable tn)]"

fun pipeLoop :: "backend \<Rightarrow> deps \<Rightarrow> (string \<times> string) list \<Rightarrow> unit io" where
  "pipeLoop B D [] = returnE ()"
| "pipeLoop B D ((ty, table) # rest) =
     (\<lambda>w. let pipe = tpl (snowflake_pipe (cfg w)); stage = tpl (snowflake_stage (cfg w)) in
        bindE (executeSQL B (''SHOW PIPES LIKE '' @ quote @ pipe @ ''_'' @ table @ quote) None False) (\<lambda>result.
        bindE (if \<not> isArray result \<or> result = JArr []
               then (case getSnowflakeSchema D (takeBefore ''Table'' ty) of
                   Inl e \<Rightarrow> throwE e
                 | Inr sch \<Rightarrow>
                     bindE (executeSQL B (createPipeQuery pipe stage table sch) None False) (\<lambda>r. returnE ()))
               else returnE ()) (\<lambda>u.
          pipeLoop B D rest)) w)"

definition verifyOrCreatePipe :: "backend \<Rightarrow> deps \<Rightarrow> TableNames \<Rightarrow> bool io" where
  "verifyOrCreatePipe B D tn = bindE (pipeLoop B D (entries tn)) (\<lambda>u. returnE True)"

text \<open>Any failure of the streaming-ingest client's construction is caught and answered by false.\<close>

definition createSnowpipeConnection :: "backend \<Rightarrow> bool io" where
  "createSnowpipeConnection B w =
     (let c = cfg w;
          args = [snowflake_user c, snowflake_private_key c, snowflake_account c]
                 @ (if isSet (snowflake_region c) then [snowflake_region c] else [])
                 @ (if isSet (snowflake_provider c) then [snowflake_provider c] else [])
      in case perform B (CreateSnowpipeAPI args) w of
           (Ok api, w') \<Rightarrow> (Inr True, w'\<lparr>snowpipeAPI := True\<rparr>)
         | (Err e, w') \<Rightarrow> (Inr False, w'))"


text \<open>
  One call of \<^verbatim>\<open>initializeSnowflake\<close>: the configuration is read again (the retry bound
  read with it is not used in this module), then each block runs only while its flag is not
  set. \<open>connectionStep\<close>, \<open>datasetStep\<close>, \<open>tablesStep\<close>,
  \<open>stageStep\<close> and \<open>pipeStep\<close> are the five blocks in the order of the source; the last two
  push onto the result list.
\<close>

definition connectionStep :: "backend \<Rightarrow> unit io" where
  "connectionStep B w =
     (if isConnectionReady w then (Inr (), w)
      else case createSnowflakeConnection B w of
        (Inl e, w1) \<Rightarrow> (Inl e, w1)
      | (Inr ok, w1) \<Rightarrow>
          let w2 = w1\<lparr>isConnectionReady := ok\<rparr> in
          if \<not> ok then (Inl (mkError ''snowflake credentials verification failed.''), w2)
          else (case perform B IsValidAsync w2 of
              (Err e, w3) \<Rightarrow> (Inl e, w3)
            | (Ok valid, w3) \<Rightarrow>
                let w4 = w3\<lparr>isConnectionReady := truthy valid\<rparr> in
                (case getCurrentUser B w4 of
                   (Inl e, w5) \<Rightarrow> (Inl e, w5)
                 | (Inr user, w5) \<Rightarrow>
                     let w6 = w5\<lparr>currentUser := user\<rparr> in
                     if \<not> isConnectionReady w6
                     then (Inl (mkError ''snowflake connection is in an invalid state.''), w6)
                     else (Inr (), w6))))"

definition datasetStep :: "backend \<Rightarrow> unit io" where
  "datasetStep B w =
     (if isDatasetReady w then (Inr (), w)
      else case verifyOrCreateDatabase B (snowflake_database (cfg w)) (snowflake_schema (cfg w)) w of
        (Inl e, w1) \<Rightarrow> (Inl e, w1)
      | (Inr ok, w1) \<Rightarrow>
          let w2 = w1\<lparr>isDatasetReady := ok\<rparr> in
          if \<not> ok then (Inl (mkError ''Dataset verification or creation failed.''), w2)
          else (Inr (), w2))"

definition tablesStep :: "backend \<Rightarrow> deps \<Rightarrow> TableNames \<Rightarrow> unit io" where
  "tablesStep B D tn w =
     (if areTablesReady w then (Inr (), w)
      else case verifyOrCreateTables B D
                  [(''track'', eventTable tn), (''user'', userTable tn), (''group'', groupTable tn)] w of
        (Inl e, w1) \<Rightarrow> (Inl e, w1)
      | (Inr tableCheckResults, w1) \<Rightarrow>
          let w2 = w1\<lparr>areTablesReady := list_all (\<lambda>result. result) tableCheckResults\<rparr> in
          if \<not> areTablesReady w2 then (Inl (mkError ''Table verification or creation failed.''), w2)
          else (Inr (), w2\<lparr>transport := ''insert''\<rparr>))"

definition stageStep :: "backend \<Rightarrow> bool list \<Rightarrow> bool list io" where
  "stageStep B result w =
     (if isSet (snowflake_stage (cfg w)) \<and> \<not> isStageReady w
      then (case verifyOrCreateStage B w of
          (Inl e, w1) \<Rightarrow> (Inl e, w1)
        | (Inr stageCheckResults, w1) \<Rightarrow>
            (Inr (result @ [stageCheckResults]),
             w1\<lparr>isStageReady := stageCheckResults, transport := ''copy''\<rparr>))
      else (Inr result, w))"

definition pipeStep :: "backend \<Rightarrow> deps \<Rightarrow> TableNames \<Rightarrow> bool list \<Rightarrow> bool list io" where
  "pipeStep B D tn result w =
     (if isSet (snowflake_pipe (cfg w))
      then bindE (\<lambda>w. if \<not> isPipeReady w
                      then (case verifyOrCreatePipe B D tn w of
                          (Inl e, w1) \<Rightarrow> (Inl e, w1)
                        | (Inr pipeCheckResults, w1) \<Rightarrow>
                            (Inr (result @ [pipeCheckResults]),
                             w1\<lparr>isPipeReady := pipeCheckResults, transport := ''pipe''\<rparr>))
                      else (Inr result, w))
             (\<lambda>result w. if \<not> isSnowPipeReady w
                      then (case createSnowpipeConnection B w of
                          (Inl e, w1) \<Rightarrow> (Inl e, w1)
                        | (Inr ready, w1) \<Rightarrow> (Inr (result @ [ready]), w1\<lparr>isSnowPipeReady := ready\<rparr>))
                      else (Inr result, w)) w
      else (Inr result, w))"

definition initializeSnowflake :: "backend \<Rightarrow> deps \<Rightarrow> config \<Rightarrow> TableNames \<Rightarrow> bool list io" where
  "initializeSnowflake B D env tn w =
     bindE (connectionStep B) (\<lambda>u.
     bindE (datasetStep B) (\<lambda>u.
     bindE (tablesStep B D tn) (\<lambda>u w.
       let result = [isConnectionReady w, isDatasetReady w, areTablesReady w] in
       bindE (stageStep B result) (\<lambda>result.
       pipeStep B D tn result) w))) (w\<lparr>cfg := env\<rparr>)"

section \<open>Write strategies\<close>

datatype status = Born | Success | Error

text \<open>
  The result object of a write; \<open>meta\<close> is its \<^verbatim>\<open>meta.method\<close> tag, \<open>errorMessage\<close> the
  caught error's message. The wall-clock \<^verbatim>\<open>duration\<close> is not part of the model.
\<close>

record InsertResult =
  status :: status
  dest :: "string option"
  insertedRows :: int
  failedRows :: int
  errorMessage :: "jsval option"
  meta :: "string option"

text \<open>
  \<^verbatim>\<open>task?.[0]?.['number of rows inserted'] || 0\<close>. The driver reports the count as a
  number; anything else in that place is read as no count.
\<close>

definition rowsInserted :: "jsval \<Rightarrow> int" where
  "rowsInserted task =
     (case js_get (js_first task) ''number of rows inserted'' of JNum n \<Rightarrow> n | _ \<Rightarrow> 0)"

fun mapE :: "('a \<Rightarrow> jsval + 'b) \<Rightarrow> 'a list \<Rightarrow> jsval + 'b list" where
  "mapE f [] = Inr []"
| "mapE f (x # xs) =
     (case f x of
        Inl e \<Rightarrow> Inl e
      | Inr y \<Rightarrow> (case mapE f xs of Inl e \<Rightarrow> Inl e | Inr ys \<Rightarrow> Inr (y # ys)))"

text \<open>
  The variant branch of shaping: every record of the batch is repaired in place, in batch
  order, and the repaired records are serialized as one JSON array, the single bind.
\<close>

definition repairAll :: "deps \<Rightarrow> schema \<Rightarrow> nat list \<Rightarrow> (nat \<Rightarrow> row) \<Rightarrow> (nat \<Rightarrow> row)" where
  "repairAll D sch batch h = foldl (\<lambda>h a. h(a := prepareComplexRows D (h a) sch)) h batch"

definition variantRows :: "(nat \<Rightarrow> row) \<Rightarrow> nat list \<Rightarrow> jsval" where
  "variantRows h batch = JArr (map (\<lambda>a. JObj (h a)) batch)"

text \<open>The positional branch: one array of bind values per record, in schema order.\<close>

definition bindRows :: "deps \<Rightarrow> schema \<Rightarrow> (nat \<Rightarrow> row) \<Rightarrow> nat list \<Rightarrow> jsval + jsval" where
  "bindRows D sch h batch =
     (case mapE (\<lambda>a. case mapE (\<lambda>f. formatBindValue D (obj_get (h a) (name f)) (type f)) sch of
                        Inl e \<Rightarrow> Inl e | Inr vs \<Rightarrow> Inr (JArr vs)) batch of
        Inl e \<Rightarrow> Inl e
      | Inr rows \<Rightarrow> Inr (JArr rows))"

definition insertData :: "backend \<Rightarrow> deps \<Rightarrow> nat list \<Rightarrow> string \<Rightarrow> schema \<Rightarrow> InsertResult io" where
  "insertData B D batch table sch w =
     (let (insertSQL, hasVariant) = prepareInsertSQL sch table in
      case (if hasVariant
            then (let h = repairAll D sch batch (heap w)
                  in (Inr (JArr [JStr (JSON_stringify D (variantRows h batch))]), w\<lparr>heap := h\<rparr>))
            else (bindRows D sch (heap w) batch, w)) of
        (Inl e, w1) \<Rightarrow> (Inl e, w1)
      | (Inr data, w1) \<Rightarrow>
          (case executeSQL B insertSQL (Some data) False w1 of
             (Inr task, w2) \<Rightarrow>
               let inserted = rowsInserted task;
                   failed = int (length batch) - inserted
               in (Inr \<lparr>status = Success, dest = Some ''snowflake'', insertedRows = inserted,
                        failedRows = failed, errorMessage = None, meta = Some (transport w2)\<rparr>, w2)
           | (Inl err, w2) \<Rightarrow>
               (Inr \<lparr>status = Error, dest = Some ''snowflake'', insertedRows = 0,
                     failedRows = int (length batch), errorMessage = Some (js_get err ''message''),
                     meta = None\<rparr>, w2)))"

text \<open>
  \<^verbatim>\<open>path.resolve(TEMP_DIR, name)\<close> for a plain file name, and \<^verbatim>\<open>path.basename\<close>.
\<close>

definition filePath :: "deps \<Rightarrow> string \<Rightarrow> world \<Rightarrow> string" where
  "filePath D table w =
     TEMP_DIR D @ ''/'' @ table @ ''_'' @ TODAY D @ ''_'' @ uid D (length (trace w)) @ ''.json''"

definition basename :: "string \<Rightarrow> string" where
  "basename path = rev (takeWhile (\<lambda>c. c \<noteq> CHR ''/'') (rev path))"

definition dataToUpload :: "deps \<Rightarrow> (nat \<Rightarrow> row) \<Rightarrow> nat list \<Rightarrow> string" where
  "dataToUpload D h batch = join nl (map (\<lambda>a. JSON_stringify D (JObj (h a))) batch)"

text \<open>A file-system call either succeeds or throws.\<close>

definition fsCall :: "backend \<Rightarrow> call \<Rightarrow> unit io" where
  "fsCall B c w = (case perform B c w of (Err e, w') \<Rightarrow> (Inl e, w') | (Ok v, w') \<Rightarrow> (Inr (), w'))"

text \<open>\<^verbatim>\<open>try { body } catch (e) { throw e } finally { fin }\<close>: a throwing \<open>fin\<close> wins.\<close>

definition finallyE :: "'a io \<Rightarrow> unit io \<Rightarrow> 'a io" where
  "finallyE body fin w =
     (case body w of
        (r, w1) \<Rightarrow> (case fin w1 of (Inl e, w2) \<Rightarrow> (Inl e, w2) | (Inr u, w2) \<Rightarrow> (r, w2)))"

definition fullSuccess :: "nat list \<Rightarrow> world \<Rightarrow> InsertResult" where
  "fullSuccess batch w =
     \<lparr>status = Success, dest = None, insertedRows = int (length batch), failedRows = 0,
      errorMessage = None, meta = Some (transport w)\<rparr>"

definition copyIntoData :: "backend \<Rightarrow> deps \<Rightarrow> nat list \<Rightarrow> string \<Rightarrow> schema \<Rightarrow> InsertResult io" where
  "copyIntoData B D batch table sch w =
     (let FILE_PATH = filePath D table w;
          fileName = basename FILE_PATH;
          stageName = ''@'' @ tpl (snowflake_stage (cfg w))
      in bindE (fsCall B (WriteFile FILE_PATH (dataToUpload D (heap w) batch))) (\<lambda>u.
         bindE (executeSQL B (''PUT file://'' @ FILE_PATH @ '' '' @ stageName) None False) (\<lambda>putResult.
         finallyE
           (bindE (executeSQL B (copyCommand table sch stageName fileName) None False) (\<lambda>copyIntoResult w.
              let result = fullSuccess batch w in
              bindE (executeSQL B (''REMOVE '' @ stageName @ ''/'' @ fileName) None False)
                (\<lambda>removeFileResult. returnE result) w))
           (fsCall B (Unlink FILE_PATH)))) w)"

text \<open>Without the streaming-ingest client \<^verbatim>\<open>snowpipeAPI.insertFile\<close> is a TypeError.\<close>

definition insertFile :: "backend \<Rightarrow> string \<Rightarrow> string list \<Rightarrow> unit io" where
  "insertFile B pipeName files w =
     (if \<not> snowpipeAPI w then (Inl typeError, w) else fsCall B (InsertFile pipeName files) w)"

definition insertWithPipe :: "backend \<Rightarrow> deps \<Rightarrow> nat list \<Rightarrow> string \<Rightarrow> schema \<Rightarrow> InsertResult io" where
  "insertWithPipe B D batch table sch w =
     (let FILE_PATH = filePath D table w;
          fileName = basename FILE_PATH @ ''.gz'';
          stageName = ''@'' @ tpl (snowflake_stage (cfg w));
          pipeName = tpl (snowflake_database (cfg w)) @ ''.'' @ tpl (snowflake_schema (cfg w)) @ ''.'' @
                     tpl (snowflake_pipe (cfg w)) @ ''_'' @ table
      in bindE (fsCall B (WriteFile FILE_PATH (dataToUpload D (heap w) batch))) (\<lambda>u.
         bindE (executeSQL B (''PUT file://'' @ FILE_PATH @ '' '' @ stageName) None False) (\<lambda>putResult.
         finallyE
           (bindE (insertFile B pipeName [fileName]) (\<lambda>response w. returnE (fullSuccess batch w) w))
           (fsCall B (Unlink FILE_PATH)))) w)"

definition insertWithPut :: "backend \<Rightarrow> deps \<Rightarrow> nat list \<Rightarrow> string \<Rightarrow> schema \<Rightarrow> InsertResult io" where
  "insertWithPut B D batch table sch w =
     (let FILE_PATH = filePath D table w;
          stageName = ''@'' @ tpl (snowflake_stage (cfg w))
      in bindE (fsCall B (WriteFile FILE_PATH (dataToUpload D (heap w) batch))) (\<lambda>u.
         bindE (executeSQL B (''PUT file://'' @ FILE_PATH @ '' '' @ stageName) None False) (\<lambda>putResult w.
           let result = fullSuccess batch w in
           bindE (fsCall B (Unlink FILE_PATH)) (\<lambda>u. returnE result) w)) w)"


section \<open>The facade\<close>

definition contention :: "jsval \<Rightarrow> bool" where
  "contention e = (js_get e ''message'' = JStr ''TableLockedError'')"

definition terminalError :: "nat list \<Rightarrow> jsval \<Rightarrow> InsertResult" where
  "terminalError batch e =
     \<lparr>status = Error, dest = None, insertedRows = 0, failedRows = int (length batch),
      errorMessage = Some (js_get e ''message''), meta = None\<rparr>"

text \<open>
  Modelled from the spec: \<^verbatim>\<open>insertWithRetry\<close> of \<^verbatim>\<open>components/retries.js\<close>, which is not among
  the sources. It wraps one invocation of a write strategy; an exception classified as
  recoverable contention (the locked-table signal of \<^verbatim>\<open>executeSQL\<close>) is retried while attempts
  are left, any other exception, or exhaustion, ends in a terminal error result. The first
  argument counts the retries left; the backoff delay is not part of the state.
\<close>

fun insertWithRetry ::
  "nat \<Rightarrow> (nat list \<Rightarrow> string \<Rightarrow> schema \<Rightarrow> InsertResult io) \<Rightarrow> nat list \<Rightarrow> string \<Rightarrow> schema \<Rightarrow> InsertResult io"
where
  "insertWithRetry 0 f batch table sch w =
     (case f batch table sch w of
        (Inr r, w') \<Rightarrow> (Inr r, w')
      | (Inl e, w') \<Rightarrow> (Inr (terminalError batch e), w'))"
| "insertWithRetry (Suc k) f batch table sch w =
     (case f batch table sch w of
        (Inr r, w') \<Rightarrow> (Inr r, w')
      | (Inl e, w') \<Rightarrow>
          if contention e then insertWithRetry k f batch table sch w'
          else (Inr (terminalError batch e), w'))"

definition main :: "backend \<Rightarrow> deps \<Rightarrow> config \<Rightarrow> nat list \<Rightarrow> string \<Rightarrow> TableNames \<Rightarrow> InsertResult io" where
  "main B D env data ty tn w =
     (case initializeSnowflake B D env tn w of
        (Inl e, w1) \<Rightarrow> (Inl e, w1)
      | (Inr init, w1) \<Rightarrow>
          if \<not> list_all (\<lambda>i. i) init then (Inl (mkError ''Failed to initialize Snowflake middleware.''), w1)
          else (case (if ty = ''track'' then Some (eventTable tn)
                      else if ty = ''engage'' then Some (userTable tn)
                      else if ty = ''groups'' then Some (groupTable tn)
                      else None) of
              None \<Rightarrow> (Inl (mkError ''Invalid Record Type''), w1)
            | Some targetTable \<Rightarrow>
                (case getSnowflakeSchema D ty of
                   Inl e \<Rightarrow> (Inl e, w1)
                 | Inr sch \<Rightarrow>
                     let (h, preparedData) = schematizeForWarehouse D (heap w1) data sch;
                         w2 = w1\<lparr>heap := h\<rparr>
                     in (case (if transport w2 = ''insert'' then Some (insertData B D)
                               else if transport w2 = ''copy'' then Some (copyIntoData B D)
                               else if transport w2 = ''pipe'' then Some (insertWithPipe B D)
                               else if transport w2 = ''task'' then Some (insertWithPut B D)
                               else None) of
                           None \<Rightarrow> (Inl (mkError ''Invalid transport method''), w2)
                         | Some insertMethod \<Rightarrow>
                             insertWithRetry (MAX_RETRIES D - 1) insertMethod preparedData targetTable sch w2))))"

section \<open>Dropping the resources\<close>












section \<open>The object-store adapter: initialization\<close>

datatype s3call =
    ListObjectsV2 "string option"
  | PutObject "string option" string jsval
  | GetObject "string option" string
  | DeleteObjects "string option" "string list"
  | StreamToString jsval
  | Touch string jsval
  | Load string
  | Rm string

type_synonym s3backend = "s3call list \<Rightarrow> s3call \<Rightarrow> reply"

text \<open>The module-level variables of the S3 adapter (undefined until assigned) and its calls.\<close>

record s3world =
  s3_bucket :: "string option"
  isClientReady :: jsval
  canWriteToBucket :: jsval
  s3trace :: "s3call list"

type_synonym 'a s3io = "s3world \<Rightarrow> (jsval + 'a) \<times> s3world"

definition s3perform :: "s3backend \<Rightarrow> s3call \<Rightarrow> s3world \<Rightarrow> reply \<times> s3world" where
  "s3perform B c w = (B (s3trace w) c, w\<lparr>s3trace := s3trace w @ [c]\<rparr>)"

text \<open>\<^verbatim>\<open>error.message\<close> in a catch block: a TypeError when null or undefined was thrown.\<close>

definition verifyS3Credentials :: "s3backend \<Rightarrow> jsval s3io" where
  "verifyS3Credentials B w =
     (case s3perform B (ListObjectsV2 (s3_bucket w)) w of
        (Ok r, w1) \<Rightarrow> (Inr (JBool True), w1)
      | (Err error, w1) \<Rightarrow>
          if error = JNull \<or> error = JUndefined then (Inl typeError, w1)
          else (Inr (js_get error ''message''), w1))"

text \<open>
  The body of the \<^verbatim>\<open>try\<close> block of \<^verbatim>\<open>verifyReadAndWritePermissions\<close>, one outside call after
  the other; \<open>Inl\<close> is a throw inside the block, \<open>Inr False\<close> its \<^verbatim>\<open>return false\<close>.
\<close>

definition s3step :: "s3backend \<Rightarrow> s3call \<Rightarrow> jsval s3io" where
  "s3step B c w = (case s3perform B c w of (Err e, w1) \<Rightarrow> (Inl e, w1) | (Ok v, w1) \<Rightarrow> (Inr v, w1))"

definition s3bind :: "'a s3io \<Rightarrow> ('a \<Rightarrow> 'b s3io) \<Rightarrow> 'b s3io" where
  "s3bind m f w = (case m w of (Inl e, w') \<Rightarrow> (Inl e, w') | (Inr x, w') \<Rightarrow> f x w')"

definition readWriteBody :: "s3backend \<Rightarrow> string \<Rightarrow> string \<Rightarrow> bool s3io" where
  "readWriteBody B FILE_PATH FILE_PATH_DOWNLOAD w =
     s3bind (s3step B (Load FILE_PATH)) (\<lambda>body.
     s3bind (s3step B (PutObject (s3_bucket w) ''dummy.txt'' body)) (\<lambda>u.
     s3bind (s3step B (GetObject (s3_bucket w) ''dummy.txt'')) (\<lambda>data.
     if data = JNull \<or> data = JUndefined then (\<lambda>w. (Inl typeError, w))
     else
     s3bind (s3step B (StreamToString (js_get data ''Body''))) (\<lambda>bodyContents.
     s3bind (s3step B (Touch FILE_PATH_DOWNLOAD bodyContents)) (\<lambda>u.
     s3bind (s3step B (Load FILE_PATH)) (\<lambda>localFileContents.
     s3bind (s3step B (Load FILE_PATH_DOWNLOAD)) (\<lambda>downloadedContents.
     if downloadedContents \<noteq> localFileContents then (\<lambda>w. (Inr False, w))
     else
     s3bind (s3step B (DeleteObjects (s3_bucket w) [''dummy.txt''])) (\<lambda>u.
     s3bind (s3step B (Rm FILE_PATH)) (\<lambda>u.
     s3bind (s3step B (Rm FILE_PATH_DOWNLOAD)) (\<lambda>u w. (Inr True, w))))))))))) w"

definition verifyReadAndWritePermissions :: "s3backend \<Rightarrow> string \<Rightarrow> bool s3io" where
  "verifyReadAndWritePermissions B tempDir w =
     (let FILE_PATH = tempDir @ ''/dummy.txt'';
          FILE_PATH_DOWNLOAD = tempDir @ ''/dummy-download.txt''
      in case s3step B (Touch FILE_PATH (JStr ''hello!'')) w of
           (Inl e, w1) \<Rightarrow> (Inl e, w1)
         | (Inr localFileWriteResult, w1) \<Rightarrow>
             if \<not> truthy localFileWriteResult then (Inr False, w1)
             else (case readWriteBody B FILE_PATH FILE_PATH_DOWNLOAD w1 of
                 (Inl error, w2) \<Rightarrow> (Inr False, w2)
               | (Inr ok, w2) \<Rightarrow> (Inr ok, w2)))"

definition initializeS3 :: "s3backend \<Rightarrow> string \<Rightarrow> string option \<Rightarrow> jsval list s3io" where
  "initializeS3 B tempDir env_bucket w0 =
     (let w = w0\<lparr>s3_bucket := env_bucket\<rparr> in
      case (if \<not> truthy (isClientReady w)
            then (case verifyS3Credentials B w of
                (Inl e, w1) \<Rightarrow> (Inl e, w1)
              | (Inr r, w1) \<Rightarrow>
                  let w2 = w1\<lparr>isClientReady := r\<rparr> in
                  if \<not> truthy (isClientReady w2)
                  then (Inl (mkError ''S3 credentials verification failed.''), w2)
                  else (Inr (), w2))
            else (Inr (), w)) of
        (Inl e, w3) \<Rightarrow> (Inl e, w3)
      | (Inr u, w3) \<Rightarrow>
          (case (if \<not> truthy (canWriteToBucket w3)
                 then (case verifyReadAndWritePermissions B tempDir w3 of
                     (Inl e, w4) \<Rightarrow> (Inl e, w4)
                   | (Inr r, w4) \<Rightarrow>
                       let w5 = w4\<lparr>canWriteToBucket := JBool r\<rparr> in
                       if \<not> r then (Inl (mkError ''Could not verify read/write bucket permissions.''), w5)
                       else (Inr (), w5))
                 else (Inr (), w3)) of
             (Inl e, w6) \<Rightarrow> (Inl e, w6)
           | (Inr u, w6) \<Rightarrow> (Inr [isClientReady w6], w6)))"


section \<open>Notions used by the properties\<close>


text \<open>Every flag that the configuration makes \<^verbatim>\<open>initializeSnowflake\<close> look at is set.\<close>

definition ready :: "config \<Rightarrow> world \<Rightarrow> bool" where
  "ready env w =
     (isConnectionReady w \<and> isDatasetReady w \<and> areTablesReady w \<and>
      (isSet (snowflake_stage env) \<longrightarrow> isStageReady w) \<and>
      (isSet (snowflake_pipe env) \<longrightarrow> isPipeReady w \<and> isSnowPipeReady w))"



text \<open>A creation statement, and the two forms the lifecycle manager writes: replace, and the
  plain creation of the schema. \<open>createIfAbsent\<close> is the form that keeps an existing resource.\<close>

definition isCreation :: "string \<Rightarrow> bool" where
  "isCreation sql = prefix ''CREATE '' (dropWhile is_space sql)"

definition replaceForm :: "string \<Rightarrow> bool" where
  "replaceForm sql =
     (prefix ''CREATE OR REPLACE '' (dropWhile is_space sql) \<or>
      prefix ''CREATE SCHEMA '' (dropWhile is_space sql))"


definition creationCall :: "call \<Rightarrow> bool" where
  "creationCall c = (case c of Execute sql binds \<Rightarrow> isCreation sql \<longrightarrow> replaceForm sql | _ \<Rightarrow> True)"

text \<open>The table that \<^verbatim>\<open>main\<close> picks for a recognized kind, and the bind payload of an empty
  batch.\<close>

definition targetTable :: "TableNames \<Rightarrow> string \<Rightarrow> string" where
  "targetTable tn ty =
     (if ty = ''track'' then eventTable tn else if ty = ''engage'' then userTable tn else groupTable tn)"

definition emptyBinds :: "deps \<Rightarrow> schema \<Rightarrow> jsval" where
  "emptyBinds D sch =
     (if list_ex (\<lambda>f. type f = ''VARIANT'') sch then JArr [JStr (JSON_stringify D (JArr []))] else JArr [])"

subsection \<open>Sample inputs\<close>

text \<open>The configuration of the sample environment file, its table names, small schema
  tables, and the module state of a fresh process.\<close>

definition envSample :: config where
  "envSample = \<lparr>snowflake_account = Some ''foo'', snowflake_user = Some ''bar'',
     snowflake_password = Some ''baz'', snowflake_database = Some ''MY_DATABASE'',
     snowflake_schema = Some ''MY_SCHEMA'', snowflake_warehouse = Some ''MY_WH'',
     snowflake_role = Some ''MY_ROLE'',
     snowflake_access_url = Some ''https://my-account.snowflakecomputing.com'',
     snowflake_stage = None, snowflake_pipe = None,
     snowflake_private_key = Some ''KEY'', snowflake_region = Some ''us-central1'',
     snowflake_provider = Some ''gcp'', snowflake_task = None, snowflake_task_schedule = None\<rparr>"

definition noConfig :: config where
  "noConfig = \<lparr>snowflake_account = None, snowflake_user = None,
     snowflake_password = None, snowflake_database = None,
     snowflake_schema = None, snowflake_warehouse = None,
     snowflake_role = None, snowflake_access_url = None,
     snowflake_stage = None, snowflake_pipe = None,
     snowflake_private_key = None, snowflake_region = None,
     snowflake_provider = None, snowflake_task = None, snowflake_task_schedule = None\<rparr>"

definition tablesSample :: TableNames where
  "tablesSample = \<lparr>eventTable = ''my_events_table'', userTable = ''my_users_table'',
     groupTable = ''my_groups_table''\<rparr>"

text \<open>A serializer without escapes, enough for the sample records.\<close>

fun stringifySample :: "jsval \<Rightarrow> string" where
  "stringifySample JUndefined = ''null''"
| "stringifySample JNull = ''null''"
| "stringifySample (JBool b) = (if b then ''true'' else ''false'')"
| "stringifySample (JNum n) = show_int n"
| "stringifySample (JStr s) = [CHR 0x22] @ s @ [CHR 0x22]"
| "stringifySample (JArr xs) = ''['' @ join '','' (map stringifySample xs) @ '']''"
| "stringifySample (JObj kvs) =
     ''{'' @ join '','' (map (\<lambda>(k, v). [CHR 0x22] @ k @ [CHR 0x22] @ '':'' @ stringifySample v) kvs) @ ''}''"

definition parseSample :: "string \<Rightarrow> jsval option" where
  "parseSample s = (if s = ''null'' then Some JNull else if s = ''{}'' then Some (JObj []) else None)"

definition depsSample :: deps where
  "depsSample = \<lparr>
     JSON_parse = parseSample,
     JSON_stringify = stringifySample,
     isJSONStr = (\<lambda>s. s = ''{}''),
     eventsSchema = [\<lparr>name = ''EVENT'', type = ''VARCHAR''\<rparr>, \<lparr>name = ''PROPERTIES'', type = ''VARIANT''\<rparr>],
     usersSchema = [\<lparr>name = ''DISTINCT_ID'', type = ''VARCHAR''\<rparr>, \<lparr>name = ''PROPERTIES'', type = ''VARIANT''\<rparr>],
     groupsSchema = [\<lparr>name = ''GROUP_KEY'', type = ''VARCHAR''\<rparr>, \<lparr>name = ''GROUP_ID'', type = ''VARCHAR''\<rparr>],
     TEMP_DIR = ''/tmp'', TODAY = ''2024-01-01'', uid = (\<lambda>n. ''abc''),
     schematizeForWarehouse = (\<lambda>h batch sch. (h, batch)),
     MAX_RETRIES = 5\<rparr>"

definition coldWorld :: world where
  "coldWorld = \<lparr>cfg = noConfig, connection = False, isConnectionReady = False,
     isDatasetReady = False, areTablesReady = False, isStageReady = False, isPipeReady = False,
     isSnowPipeReady = False, currentUser = JUndefined, snowpipeAPI = False,
     transport = ''none'', trace = [], heap = (\<lambda>a. [])\<rparr>"

text \<open>The state after a first successful initialization under the sample configuration.\<close>

definition warmWorld :: world where
  "warmWorld = \<lparr>cfg = envSample, connection = True, isConnectionReady = True,
     isDatasetReady = True, areTablesReady = True, isStageReady = False, isPipeReady = False,
     isSnowPipeReady = False, currentUser = JUndefined, snowpipeAPI = False,
     transport = ''insert'', trace = [], heap = (\<lambda>a. [])\<rparr>"

text \<open>The error of the dummy insert: the unknown-column compilation error.\<close>

definition unknownColumn :: jsval where
  "unknownColumn = JObj [(''code'', JStr ''000904''), (''message'', JStr ''invalid identifier''),
     (''data'', JObj [(''errorCode'', JStr ''000904''), (''sqlState'', JStr ''42000''),
                     (''type'', JStr ''COMPILATION'')])]"

text \<open>A warehouse in which everything already exists and every statement succeeds.\<close>

definition healthyBackend :: backend where
  "healthyBackend h c =
     (case c of
        Execute sql binds \<Rightarrow>
          if prefix ''SELECT COUNT'' sql then Ok (JArr [JObj [(''COUNT'', JNum 1)]])
          else if prefix ''SHOW SCHEMAS'' sql then Ok (JArr [JObj [(''name'', JStr ''MY_SCHEMA'')]])
          else if prefix ''SHOW TABLES'' sql then Ok (JArr [JObj [(''name'', JStr ''T'')]])
          else if prefix ''INSERT INTO'' sql \<and> binds = None then Err unknownColumn
          else Ok (JArr [])
      | _ \<Rightarrow> Ok (JBool True))"

text \<open>A warehouse in which nothing exists yet: a table is listed once its creation statement
  has been executed.\<close>

definition tableCreated :: "call list \<Rightarrow> string \<Rightarrow> bool" where
  "tableCreated h showSql =
     (let table = butlast (drop 18 showSql) in
      list_ex (\<lambda>c. case c of Execute sql binds \<Rightarrow> prefix (''CREATE OR REPLACE TABLE '' @ table @ '' ('') sql
                            | _ \<Rightarrow> False) h)"

definition freshBackend :: backend where
  "freshBackend h c =
     (case c of
        Execute sql binds \<Rightarrow>
          if prefix ''SELECT COUNT'' sql
          then Err (JObj [(''message'', JStr (''Database '' @ quote @ ''MY_DATABASE'' @ quote @
                                             '' does not exist or not authorized.''))])
          else if prefix ''SHOW TABLES'' sql
          then Ok (JArr (if tableCreated h sql then [JObj [(''name'', JStr ''T'')]] else []))
          else if prefix ''INSERT INTO'' sql \<and> binds = None then Err unknownColumn
          else Ok (JArr [])
      | _ \<Rightarrow> Ok (JBool True))"

text \<open>A warehouse that fails every call.\<close>

definition failure :: jsval where
  "failure = JObj [(''message'', JStr ''Network error'')]"

definition failingBackend :: backend where
  "failingBackend h c = Err failure"

text \<open>An object store whose listing is denied while objects can be written, read and deleted.\<close>

definition accessDenied :: jsval where
  "accessDenied = JObj [(''name'', JStr ''AccessDenied''), (''message'', JStr ''Access Denied'')]"

definition listDenied :: s3backend where
  "listDenied h c =
     (case c of
        ListObjectsV2 bucket \<Rightarrow> Err accessDenied
      | GetObject bucket key \<Rightarrow> Ok (JObj [(''Body'', JStr ''stream'')])
      | StreamToString body \<Rightarrow> Ok (JStr ''hello!'')
      | Load path \<Rightarrow> Ok (JStr ''hello!'')
      | _ \<Rightarrow> Ok (JBool True))"

definition s3cold :: s3world where
  "s3cold = \<lparr>s3_bucket = None, isClientReady = JUndefined, canWriteToBucket = JUndefined, s3trace = []\<rparr>"


section \<open>Statements generated from a schema\<close>



section \<open>Value normalization\<close>







lemma repairAll_Nil: "repairAll D sch [] h = h"
  by (simp add: repairAll_def)

lemma repairAll_Cons:
  "repairAll D sch (b # batch) h = repairAll D sch batch (h(b := prepareComplexRows D (h b) sch))"
  by (simp add: repairAll_def)


lemma repairAll_other: "a \<notin> set batch \<Longrightarrow> repairAll D sch batch h a = h a"
proof (induction batch arbitrary: h)
  case Nil
  then show ?case by (simp add: repairAll_def)
next
  case (Cons b batch)
  then show ?case by (simp add: repairAll_Cons)
qed




section \<open>Row counts of the write strategies\<close>












section \<open>Initialization: effects of the steps\<close>








lemma creation_replace [simp]:
  "creationCall (Execute (''CREATE OR REPLACE '' @ x) b)"
  "creationCall (Execute (''CREATE SCHEMA '' @ x) b)"
  by (simp_all add: creationCall_def replaceForm_def is_space_def)

lemma creation_other [simp]:
  "creationCall Connect" "creationCall IsValidAsync" "creationCall (CreateSnowpipeAPI args)"
  by (simp_all add: creationCall_def)







































lemma initializeSnowflake_ready:
  assumes "ready env w"
  shows "initializeSnowflake B D env tn w = (Inr [True, True, True], w\<lparr>cfg := env\<rparr>)"
  using assms
  by (auto simp: ready_def initializeSnowflake_def bindE_def connectionStep_def datasetStep_def
      tablesStep_def stageStep_def pipeStep_def Let_def)






lemmas run_defs =
  initializeSnowflake_def main_def bindE_def returnE_def throwE_def connectionStep_def
  createSnowflakeConnection_def isSet_def perform_def getCurrentUser_def executeSQL_def Let_def
  lastElem_def quote_def datasetStep_def verifyOrCreateDatabase_def checkDatabaseQuery_def
  createDatabaseQuery_def createSchemaQuery_def toUpperCase_def upper_char_def lower_letters_def
  upper_letters_def str_includes_def sublist_code tpl_def tablesStep_def checkIfTableExists_def
  waitForTableToBeReady_def insertDummyRecord_def createTable_def createTableQuery_def
  getSnowflakeSchema_def obj_get_def stageStep_def verifyOrCreateStage_def createStageQuery_def
  pipeStep_def eval_nat_numeral

lemmas sample_defs =
  coldWorld_def warmWorld_def envSample_def noConfig_def tablesSample_def depsSample_def
  healthyBackend_def freshBackend_def tableCreated_def unknownColumn_def mkError_def

lemma cold_run_unrecognized:
  "let run = main healthyBackend depsSample envSample [] ''page'' tablesSample coldWorld in
     fst run = Inl (mkError ''Invalid Record Type'')
   \<and> take 3 (trace (snd run)) = [Connect, IsValidAsync, Execute ''SELECT CURRENT_USER()'' None]
   \<and> length (trace (snd run)) = 15
   \<and> transport (snd run) = ''insert''"
  by (simp add: run_defs sample_defs)

text \<open>
  On a fresh process with a reachable warehouse, \<^verbatim>\<open>main\<close> with the kind "page" throws
  the configuration error only after initialization has connected and run its fifteen
  outside calls, and has set the transport.
\<close>

theorem main_unrecognized_kind_counterexample:
  "fst (main healthyBackend depsSample envSample [] ''page'' tablesSample coldWorld)
     = Inl (mkError ''Invalid Record Type'')
   \<and> take 3 (trace (snd (main healthyBackend depsSample envSample [] ''page'' tablesSample coldWorld)))
     = [Connect, IsValidAsync, Execute ''SELECT CURRENT_USER()'' None]
   \<and> length (trace (snd (main healthyBackend depsSample envSample [] ''page'' tablesSample coldWorld))) = 15
   \<and> transport (snd (main healthyBackend depsSample envSample [] ''page'' tablesSample coldWorld)) = ''insert''
   \<and> trace coldWorld = [] \<and> transport coldWorld = ''none''"
  using cold_run_unrecognized unfolding Let_def by (simp add: coldWorld_def)

text \<open>
  C1 (amended). For every batch and table names, \<^verbatim>\<open>main\<close> with a record kind outside
  track, engage and groups never returns a result: it throws, and its whole effect is the
  effect of \<^verbatim>\<open>initializeSnowflake\<close> (no write strategy runs). When every readiness flag the
  configuration asks for is already set, the error is "Invalid Record Type", no outside call
  is made, and only the configuration is read again.
\<close>

theorem main_unrecognized_kind:
  assumes "ty \<notin> {''track'', ''engage'', ''groups''}"
  shows "(\<exists>e. main B D env data ty tn w = (Inl e, snd (initializeSnowflake B D env tn w)))
     \<and> (ready env w \<longrightarrow>
          main B D env data ty tn w = (Inl (mkError ''Invalid Record Type''), w\<lparr>cfg := env\<rparr>))"
proof
  obtain r w1 where i: "initializeSnowflake B D env tn w = (r, w1)"
    by (cases "initializeSnowflake B D env tn w")
  with assms show "\<exists>e. main B D env data ty tn w = (Inl e, snd (initializeSnowflake B D env tn w))"
    by (cases r) (auto simp: main_def)
next
  show "ready env w \<longrightarrow>
          main B D env data ty tn w = (Inl (mkError ''Invalid Record Type''), w\<lparr>cfg := env\<rparr>)"
  proof
    assume "ready env w"
    from initializeSnowflake_ready [OF this, of B D tn] assms
    show "main B D env data ty tn w = (Inl (mkError ''Invalid Record Type''), w\<lparr>cfg := env\<rparr>)"
      by (simp add: main_def)
  qed
qed

theorem main_unrecognized_kind_witness:
  "''page'' \<notin> {''track'', ''engage'', ''groups''} \<and> ready envSample warmWorld
   \<and> main healthyBackend depsSample envSample [0] ''page'' tablesSample warmWorld
       = (Inl (mkError ''Invalid Record Type''), warmWorld)"
proof -
  have kind: "''page'' \<notin> {''track'', ''engage'', ''groups''}" by simp
  have warm: "ready envSample warmWorld"
    by (simp add: ready_def warmWorld_def envSample_def isSet_def)
  have same: "warmWorld\<lparr>cfg := envSample\<rparr> = warmWorld"
    by (simp add: warmWorld_def)
  from main_unrecognized_kind [OF kind, of healthyBackend depsSample envSample "[0]" tablesSample warmWorld]
    kind warm same
  show ?thesis by simp
qed










section \<open>Shaping and the records of the batch\<close>

lemma executeSQL_heap: "executeSQL B sql b nt w = (r, w') \<Longrightarrow> heap w' = heap w"
  by (auto simp: executeSQL_def perform_def split: if_splits reply.splits)

lemma insertData_heap:
  "heap (snd (insertData B D batch table sch w)) =
     (if list_ex (\<lambda>f. type f = ''VARIANT'') sch then repairAll D sch batch (heap w) else heap w)"
  by (auto simp: insertData_def prepareInsertSQL_def Let_def
      split: prod.splits sum.splits dest: executeSQL_heap)

lemma repairAll_distinct:
  "distinct batch \<Longrightarrow> a \<in> set batch \<Longrightarrow> repairAll D sch batch h a = prepareComplexRows D (h a) sch"
proof (induction batch arbitrary: h)
  case Nil
  then show ?case by simp
next
  case (Cons b batch)
  show ?case
  proof (cases "a = b")
    case True
    with Cons.prems have "a \<notin> set batch" by simp
    from repairAll_other [OF this] True show ?thesis
      by (simp add: repairAll_Cons)
  next
    case False
    with Cons.prems have "distinct batch" "a \<in> set batch" by simp_all
    from Cons.IH [OF this] False show ?thesis
      by (simp add: repairAll_Cons)
  qed
qed

text \<open>
  C4 (amended). Shaping leaves the batch and its records unmodified only in the positional
  branch (\<^verbatim>\<open>formatBindValue\<close>). In the variant branch \<^verbatim>\<open>prepareComplexRows\<close> writes the
  repaired values into each record of the batch in place: after \<^verbatim>\<open>insertData\<close> every record
  of the batch holds its repaired form, and records outside the batch are untouched.
\<close>

theorem shaping_effect:
  "heap (snd (insertData B D batch table sch w)) =
     (if list_ex (\<lambda>f. type f = ''VARIANT'') sch then repairAll D sch batch (heap w) else heap w)
   \<and> (a \<notin> set batch \<longrightarrow> repairAll D sch batch h a = h a)
   \<and> (distinct batch \<and> a' \<in> set batch \<longrightarrow> repairAll D sch batch h a' = prepareComplexRows D (h a') sch)"
  using insertData_heap repairAll_other repairAll_distinct by blast

lemma shaping_run:
  "let w = warmWorld\<lparr>heap := (\<lambda>a. [(''EVENT'', JStr ''click''), (''PROPERTIES'', JStr ''{}'')])\<rparr>;
       run = insertData healthyBackend depsSample [0] ''my_events_table'' (eventsSchema depsSample) w
   in heap (snd run) 0 = [(''EVENT'', JStr ''click''), (''PROPERTIES'', JObj [])]"
  by (simp add: insertData_heap depsSample_def warmWorld_def repairAll_def
      prepareComplexRows_def reparse_def parseSample_def nullLike_def obj_get_def Let_def)

text \<open>
  With a variant column in the schema, the record handed to \<^verbatim>\<open>insertData\<close> is changed: its
  JSON text has become the parsed object.
\<close>

theorem shaping_counterexample:
  "heap (snd (insertData healthyBackend depsSample [0] ''my_events_table'' (eventsSchema depsSample)
        (warmWorld\<lparr>heap := (\<lambda>a. [(''EVENT'', JStr ''click''), (''PROPERTIES'', JStr ''{}'')])\<rparr>))) 0
     = [(''EVENT'', JStr ''click''), (''PROPERTIES'', JObj [])]
   \<and> heap (warmWorld\<lparr>heap := (\<lambda>a. [(''EVENT'', JStr ''click''), (''PROPERTIES'', JStr ''{}'')])\<rparr>) 0
     = [(''EVENT'', JStr ''click''), (''PROPERTIES'', JStr ''{}'')]"
  using shaping_run unfolding Let_def by simp

theorem shaping_effect_witness:
  "list_ex (\<lambda>f. type f = ''VARIANT'') (eventsSchema depsSample) \<and> distinct [0::nat, 1] \<and> 1 \<in> set [0::nat, 1]
   \<and> (2::nat) \<notin> set [0, 1]
   \<and> heap (snd (insertData healthyBackend depsSample [0, 1] ''my_events_table'' (eventsSchema depsSample)
         (warmWorld\<lparr>heap := (\<lambda>a. [(''PROPERTIES'', JStr ''null'')])\<rparr>))) 1
       = [(''PROPERTIES'', JNull)]
   \<and> heap (snd (insertData healthyBackend depsSample [0, 1] ''my_events_table'' (eventsSchema depsSample)
         (warmWorld\<lparr>heap := (\<lambda>a. [(''PROPERTIES'', JStr ''null'')])\<rparr>))) 2
       = [(''PROPERTIES'', JStr ''null'')]"
proof -
  let ?h = "\<lambda>a::nat. [(''PROPERTIES'', JStr ''null'')]"
  have v: "list_ex (\<lambda>f. type f = ''VARIANT'') (eventsSchema depsSample)"
    by (simp add: depsSample_def)
  have p: "prepareComplexRows depsSample [(''PROPERTIES'', JStr ''null'')] (eventsSchema depsSample)
      = [(''PROPERTIES'', JNull)]"
    by (simp add: prepareComplexRows_def depsSample_def reparse_def parseSample_def obj_get_def
        nullLike_def)
  from shaping_effect [of healthyBackend depsSample "[0, 1]" "''my_events_table''"
      "eventsSchema depsSample" "warmWorld\<lparr>heap := ?h\<rparr>" 2 ?h 1] v p
  show ?thesis by simp
qed

section \<open>The empty batch\<close>

lemma insertWithRetry_Inr:
  "f batch table sch w = (Inr r, w') \<Longrightarrow> insertWithRetry k f batch table sch w = (Inr r, w')"
  by (cases k) simp_all

lemma insertData_empty:
  assumes "connection w"
  shows "\<exists>r. insertData B D [] table sch w
           = (Inr r, w\<lparr>trace := trace w @ [Execute (fst (prepareInsertSQL sch table)) (Some (emptyBinds D sch))]\<rparr>)
       \<and> insertedRows r + failedRows r = 0
       \<and> (case B (trace w) (Execute (fst (prepareInsertSQL sch table)) (Some (emptyBinds D sch))) of
            Ok task \<Rightarrow> status r = Success \<and> insertedRows r = rowsInserted task
          | Err e \<Rightarrow> status r = Error \<and> insertedRows r = 0)"
proof (cases "list_ex (\<lambda>f. type f = ''VARIANT'') sch")
  case True
  with assms show ?thesis
    by (cases "B (trace w) (Execute (fst (prepareInsertSQL sch table))
            (Some (JArr [JStr (JSON_stringify D (JArr []))])))")
       (simp_all add: insertData_def prepareInsertSQL_def emptyBinds_def repairAll_Nil variantRows_def
         executeSQL_def perform_def Let_def)
next
  case False
  with assms show ?thesis
    by (cases "B (trace w) (Execute (fst (prepareInsertSQL sch table)) (Some (JArr [])))")
       (simp_all add: insertData_def prepareInsertSQL_def emptyBinds_def bindRows_def
         executeSQL_def perform_def Let_def)
qed

text \<open>
  C2 (amended). With the adapter ready and the insert transport active, \<^verbatim>\<open>main\<close> called with
  an empty batch (which the transform leaves empty) for a recognized kind still executes the
  insert statement once, with the empty bind payload. The result reports 0 + 0 rows in sum:
  status success with the count the warehouse reports (failed rows its negative) when the
  statement succeeds, status error with no rows inserted when it fails.
\<close>

theorem main_empty_batch:
  assumes "ready env w" and "transport w = ''insert''" and "connection w"
    and "ty \<in> {''track'', ''engage'', ''groups''}"
    and "getSnowflakeSchema D ty = Inr sch"
    and "schematizeForWarehouse D (heap w) [] sch = (heap w, [])"
  shows "\<exists>r. main B D env [] ty tn w
           = (Inr r, w\<lparr>cfg := env, trace := trace w @
                [Execute (fst (prepareInsertSQL sch (targetTable tn ty))) (Some (emptyBinds D sch))]\<rparr>)
       \<and> insertedRows r + failedRows r = 0
       \<and> (case B (trace w) (Execute (fst (prepareInsertSQL sch (targetTable tn ty))) (Some (emptyBinds D sch))) of
            Ok task \<Rightarrow> status r = Success \<and> insertedRows r = rowsInserted task
          | Err e \<Rightarrow> status r = Error \<and> insertedRows r = 0)"
proof -
  let ?w1 = "w\<lparr>cfg := env\<rparr>"
  let ?table = "targetTable tn ty"
  have init: "initializeSnowflake B D env tn w = (Inr [True, True, True], ?w1)"
    by (rule initializeSnowflake_ready [OF assms(1)])
  have conn: "connection ?w1" using assms(3) by simp
  from insertData_empty [OF conn, of B D ?table sch] obtain r
    where run: "insertData B D [] ?table sch ?w1
           = (Inr r, ?w1\<lparr>trace := trace ?w1 @ [Execute (fst (prepareInsertSQL sch ?table)) (Some (emptyBinds D sch))]\<rparr>)"
      and counts: "insertedRows r + failedRows r = 0"
      and st: "(case B (trace ?w1) (Execute (fst (prepareInsertSQL sch ?table)) (Some (emptyBinds D sch))) of
            Ok task \<Rightarrow> status r = Success \<and> insertedRows r = rowsInserted task
          | Err e \<Rightarrow> status r = Error \<and> insertedRows r = 0)"
    by blast
  have target: "(if ty = ''track'' then Some (eventTable tn)
                 else if ty = ''engage'' then Some (userTable tn)
                 else if ty = ''groups'' then Some (groupTable tn)
                 else None) = Some ?table"
    using assms(4) by (auto simp: targetTable_def)
  have "main B D env [] ty tn w = insertWithRetry (MAX_RETRIES D - 1) (insertData B D) [] ?table sch ?w1"
    unfolding main_def init target using assms(2,5,6) by simp
  also have "\<dots> = (Inr r, ?w1\<lparr>trace := trace ?w1 @ [Execute (fst (prepareInsertSQL sch ?table)) (Some (emptyBinds D sch))]\<rparr>)"
    by (rule insertWithRetry_Inr [where f = "insertData B D", OF run])
  finally have "main B D env [] ty tn w
           = (Inr r, w\<lparr>cfg := env, trace := trace w @
                [Execute (fst (prepareInsertSQL sch ?table)) (Some (emptyBinds D sch))]\<rparr>)"
    by simp
  with counts st show ?thesis by (intro exI [of _ r]) simp
qed

lemma empty_run:
  "let run = main healthyBackend depsSample envSample [] ''groups'' tablesSample warmWorld;
       failed = main failingBackend depsSample envSample [] ''groups'' tablesSample warmWorld
   in fst run = Inr \<lparr>status = Success, dest = Some ''snowflake'', insertedRows = 0, failedRows = 0,
                     errorMessage = None, meta = Some ''insert''\<rparr>
    \<and> trace (snd run) = [Execute ''INSERT INTO my_groups_table (GROUP_KEY, GROUP_ID) VALUES (?, ?)''
                            (Some (JArr []))]
    \<and> fst failed = Inr \<lparr>status = Error, dest = Some ''snowflake'', insertedRows = 0, failedRows = 0,
                     errorMessage = Some (JStr ''Network error''), meta = None\<rparr>"
  by (simp add: main_def initializeSnowflake_ready ready_def warmWorld_def envSample_def isSet_def
      tablesSample_def depsSample_def getSnowflakeSchema_def eval_nat_numeral insertData_def
      prepareInsertSQL_def bindRows_def executeSQL_def perform_def healthyBackend_def
      failingBackend_def failure_def tableLocked_def obj_get_def rowsInserted_def Let_def)

text \<open>
  An empty groups batch on a ready adapter: the insert statement is executed with an empty
  bind array, and against a warehouse that rejects the statement the status is error.
\<close>

theorem main_empty_batch_counterexample:
  "fst (main healthyBackend depsSample envSample [] ''groups'' tablesSample warmWorld)
     = Inr \<lparr>status = Success, dest = Some ''snowflake'', insertedRows = 0, failedRows = 0,
            errorMessage = None, meta = Some ''insert''\<rparr>
   \<and> trace (snd (main healthyBackend depsSample envSample [] ''groups'' tablesSample warmWorld))
     = [Execute ''INSERT INTO my_groups_table (GROUP_KEY, GROUP_ID) VALUES (?, ?)'' (Some (JArr []))]
   \<and> fst (main failingBackend depsSample envSample [] ''groups'' tablesSample warmWorld)
     = Inr \<lparr>status = Error, dest = Some ''snowflake'', insertedRows = 0, failedRows = 0,
            errorMessage = Some (JStr ''Network error''), meta = None\<rparr>
   \<and> trace warmWorld = []"
  using empty_run unfolding Let_def by (simp add: warmWorld_def)

theorem main_empty_batch_witness:
  "ready envSample warmWorld \<and> transport warmWorld = ''insert'' \<and> connection warmWorld
   \<and> getSnowflakeSchema depsSample ''engage'' = Inr (usersSchema depsSample)
   \<and> trace (snd (main healthyBackend depsSample envSample [] ''engage'' tablesSample warmWorld))
       = [Execute (fst (prepareInsertSQL (usersSchema depsSample) ''my_users_table''))
            (Some (JArr [JStr ''[]'']))]"
proof -
  have warm: "ready envSample warmWorld" "transport warmWorld = ''insert''" "connection warmWorld"
    by (simp_all add: ready_def warmWorld_def envSample_def isSet_def)
  have kind: "''engage'' \<in> {''track'', ''engage'', ''groups''}" by simp
  have sch: "getSnowflakeSchema depsSample ''engage'' = Inr (usersSchema depsSample)"
    by (simp add: getSnowflakeSchema_def)
  have prep: "schematizeForWarehouse depsSample (heap warmWorld) [] (usersSchema depsSample)
      = (heap warmWorld, [])"
    by (simp add: depsSample_def)
  have binds: "emptyBinds depsSample (usersSchema depsSample) = JArr [JStr ''[]'']"
    by (simp add: emptyBinds_def depsSample_def)
  have table: "targetTable tablesSample ''engage'' = ''my_users_table''"
    by (simp add: targetTable_def tablesSample_def)
  from main_empty_batch [OF warm kind sch prep, of healthyBackend tablesSample]
  obtain r where "main healthyBackend depsSample envSample [] ''engage'' tablesSample warmWorld
      = (Inr r, warmWorld\<lparr>cfg := envSample, trace := trace warmWorld @
           [Execute (fst (prepareInsertSQL (usersSchema depsSample) ''my_users_table''))
              (Some (JArr [JStr ''[]'']))]\<rparr>)"
    unfolding binds table by blast
  then have "trace (snd (main healthyBackend depsSample envSample [] ''engage'' tablesSample warmWorld))
       = [Execute (fst (prepareInsertSQL (usersSchema depsSample) ''my_users_table''))
            (Some (JArr [JStr ''[]'']))]"
    by (simp add: warmWorld_def)
  with warm sch show ?thesis by simp
qed

section \<open>Dropping: failures and the summary\<close>



















section \<open>The object-store adapter: unverified credentials\<close>

lemmas s3_defs =
  initializeS3_def verifyS3Credentials_def verifyReadAndWritePermissions_def readWriteBody_def
  s3bind_def s3step_def s3perform_def listDenied_def accessDenied_def s3cold_def obj_get_def Let_def

lemma s3_denied_run:
  "let first = initializeS3 listDenied ''/tmp'' (Some ''my_bucket'') s3cold;
       second = initializeS3 listDenied ''/tmp'' (Some ''my_bucket'') (snd first)
   in fst first = Inr [JStr ''Access Denied'']
    \<and> hd (s3trace (snd first)) = ListObjectsV2 (Some ''my_bucket'')
    \<and> isClientReady (snd first) = JStr ''Access Denied''
    \<and> second = (Inr [JStr ''Access Denied''], snd first)"
  by (simp add: s3_defs)

text \<open>
  C7. \<^verbatim>\<open>initializeS3\<close> is meant to throw when the credentials do not verify
  (\<^verbatim>\<open>if (!isClientReady) throw\<close>), but \<^verbatim>\<open>verifyS3Credentials\<close> answers a failed listing with
  the error's message, a non-empty string. With the listing denied and object reads and
  writes allowed, the first call returns the list holding that message, the flag keeps the
  message, and the next call returns again without listing the bucket.
\<close>

theorem initializeS3_returns_unverified:
  "listDenied [] (ListObjectsV2 (Some ''my_bucket'')) = Err accessDenied
   \<and> fst (initializeS3 listDenied ''/tmp'' (Some ''my_bucket'') s3cold) = Inr [JStr ''Access Denied'']
   \<and> hd (s3trace (snd (initializeS3 listDenied ''/tmp'' (Some ''my_bucket'') s3cold)))
       = ListObjectsV2 (Some ''my_bucket'')
   \<and> isClientReady (snd (initializeS3 listDenied ''/tmp'' (Some ''my_bucket'') s3cold))
       = JStr ''Access Denied''
   \<and> initializeS3 listDenied ''/tmp'' (Some ''my_bucket'')
         (snd (initializeS3 listDenied ''/tmp'' (Some ''my_bucket'') s3cold))
       = (Inr [JStr ''Access Denied''], snd (initializeS3 listDenied ''/tmp'' (Some ''my_bucket'') s3cold))"
  using s3_denied_run unfolding Let_def by (simp add: listDenied_def)

end
